theory Spec2Isabelle
  imports Main
begin

section \<open>Python values and exceptions\<close>

text \<open>
  The module \<open>zipline/lines.py\<close> defines one class, \<open>SimulatedTrading\<close>, and one exception,
  \<open>ZiplineException\<close>. A method of the class is modelled as a function from the object's state
  to a result and the state afterwards, so that what a raising call leaves behind can be
  stated. The result is \<open>Inl e\<close> when the call raises \<open>e\<close> and \<open>Inr v\<close> when it returns \<open>v\<close>.
\<close>

type_synonym endpoint = nat

type_synonym pydict = "(string \<times> int) list"

datatype pyvalue =
    PyNone
  | PyDict pydict
  | PyMethod string string

datatype error =
    AssertionError
  | TypeError
  | IndexError
  | ZiplineException
  | ExhaustionError
  | InvalidRequestError
  | NotLeasedError

text \<open>
  \<open>ZiplineException.__init__\<close> is declared as \<open>def __init__(msg)\<close>: one parameter and no
  \<open>self\<close>. Python passes the new instance first, so the call \<open>ZiplineException(a1, ..., an)\<close>
  hands \<open>n + 1\<close> arguments to a function of one parameter. It returns an exception object
  only for \<open>n = 0\<close>; otherwise the call itself raises \<open>TypeError\<close>.
\<close>

definition ZiplineException_init_params :: nat where
  "ZiplineException_init_params = 1"

definition new_ZiplineException :: "string list \<Rightarrow> error + error" where
  "new_ZiplineException args =
     (if Suc (length args) = ZiplineException_init_params then Inr ZiplineException
      else Inl TypeError)"

section \<open>Collaborators imported by the module\<close>

subsection \<open>The address allocator\<close>

text \<open>
  Modelled from the spec: \<open>zipline.simulator.AddressAllocator\<close> is imported by the module
  and its code is not part of it. The spec's contract (4.1): \<open>lease(n)\<close> returns exactly \<open>n\<close>
  previously unleased endpoints, fails with \<open>ExhaustionError\<close> if fewer than \<open>n\<close> remain in
  the pool and with \<open>InvalidRequestError\<close> if \<open>n \<le> 0\<close>; reclaiming returns the given endpoints
  to the pool and fails with \<open>NotLeasedError\<close> if any of them is not currently leased. A
  failing call leaves the allocator as it was. The pool is kept in order: a lease takes
  from its front, a reclaim appends each given endpoint once.
\<close>

record AddressAllocator =
  pool :: "endpoint list"
  leased :: "endpoint list"

definition lease :: "int \<Rightarrow> AddressAllocator \<Rightarrow> (error + endpoint list) \<times> AddressAllocator" where
  "lease n a =
     (if n \<le> 0 then (Inl InvalidRequestError, a)
      else if int (length (pool a)) < n then (Inl ExhaustionError, a)
      else (Inr (take (nat n) (pool a)),
            a\<lparr>pool := drop (nat n) (pool a),
              leased := leased a @ take (nat n) (pool a)\<rparr>))"

definition reaquire :: "endpoint list \<Rightarrow> AddressAllocator \<Rightarrow> (error + unit) \<times> AddressAllocator" where
  "reaquire conn a =
     (if set conn \<subseteq> set (leased a)
      then (Inr (),
            a\<lparr>pool := pool a @ remdups conn,
              leased := filter (\<lambda>e. e \<notin> set conn) (leased a)\<rparr>)
      else (Inl NotLeasedError, a))"

definition allocator_ok :: "AddressAllocator \<Rightarrow> bool" where
  "allocator_ok a =
     (distinct (pool a) \<and> distinct (leased a) \<and> set (pool a) \<inter> set (leased a) = {})"

definition new_AddressAllocator :: "nat \<Rightarrow> AddressAllocator" where
  "new_AddressAllocator ns = \<lparr>pool = [0 ..< ns], leased = []\<rparr>"

subsection \<open>Components\<close>

text \<open>
  Modelled from the spec: a component exposes a stable identity used as a mapping key
  (\<open>get_id\<close>) and capability markers; the module tests the markers with
  \<open>isinstance(_, zmsg.DataSource)\<close> and \<open>isinstance(_, zmsg.BaseTransform)\<close>. \<open>py_id\<close> is the
  object's own identity, which tells two objects with the same \<open>get_id\<close> apart.
\<close>

record component =
  py_id :: nat
  get_id :: string
  is_DataSource :: bool
  is_BaseTransform :: bool

text \<open>
  Modelled from the spec: the client's accounting collaborator
  (\<open>trading_client.perf.cumulative_performance\<close>), read through \<open>to_dict()\<close> and
  \<open>get_positions()\<close>.
\<close>

record PerformancePeriod =
  period_stats :: pydict
  positions :: pydict

definition to_dict :: "PerformancePeriod \<Rightarrow> pyvalue" where
  "to_dict p = PyDict (period_stats p)"

definition period_get_positions :: "PerformancePeriod \<Rightarrow> pyvalue" where
  "period_get_positions p = PyDict (positions p)"

record PerformanceTracker =
  cumulative_performance :: PerformancePeriod

record TradingEnvironment =
  capital_base :: int

text \<open>
  Modelled from the spec: the three fixed components. The client is bound to the
  environment, keeps the callbacks given to \<open>add_event_callback\<close> and exposes an \<open>order\<close>
  method.
\<close>

record TradeSimulationClient =
  client_component :: component
  client_environment :: TradingEnvironment
  perf :: PerformanceTracker
  event_callbacks :: "pyvalue list"

definition new_TradeSimulationClient :: "TradingEnvironment \<Rightarrow> TradeSimulationClient" where
  "new_TradeSimulationClient env =
     \<lparr>client_component =
        \<lparr>py_id = 0, get_id = ''TRADING_CLIENT'', is_DataSource = False,
         is_BaseTransform = False\<rparr>,
      client_environment = env,
      perf = \<lparr>cumulative_performance =
               \<lparr>period_stats = [(''capital_base'', capital_base env)], positions = []\<rparr>\<rparr>,
      event_callbacks = []\<rparr>"

definition add_event_callback :: "pyvalue \<Rightarrow> TradeSimulationClient \<Rightarrow> TradeSimulationClient" where
  "add_event_callback f c = c\<lparr>event_callbacks := event_callbacks c @ [f]\<rparr>"

definition new_OrderDataSource :: component where
  "new_OrderDataSource =
     \<lparr>py_id = 1, get_id = ''ORDER_SOURCE'', is_DataSource = True, is_BaseTransform = False\<rparr>"

definition new_TransactionSimulator :: component where
  "new_TransactionSimulator =
     \<lparr>py_id = 2, get_id = ''TRANSACTION_SIM'', is_DataSource = False, is_BaseTransform = True\<rparr>"

text \<open>
  Modelled from the spec: the decision routine exposes a frame-handling entry point and
  an order-setter entry point; \<open>set_order\<close> stores the callable it is given.
\<close>

record Algorithm =
  order_attr :: pyvalue

definition set_order :: "pyvalue \<Rightarrow> Algorithm \<Rightarrow> Algorithm" where
  "set_order f alg = alg\<lparr>order_attr := f\<rparr>"

subsection \<open>Controller and simulator\<close>

text \<open>
  Modelled from the spec: the supervisory controller is constructed with two endpoints
  (its own channel pair); the logging sink is left out.
\<close>

record Controller =
  pub_socket :: endpoint
  route_socket :: endpoint

definition new_Controller :: "endpoint \<Rightarrow> endpoint \<Rightarrow> Controller" where
  "new_Controller p r = \<lparr>pub_socket = p, route_socket = r\<rparr>"

text \<open>
  Modelled from the spec: the pipeline runtime accepts the role-to-endpoint map, has
  components and a controller registered with it, and \<open>simulate()\<close> returns a run context
  exposing \<open>join()\<close>. \<open>on_done\<close> is \<open>None\<close> until the attribute is assigned; \<open>runs\<close> counts the
  calls of \<open>simulate()\<close>.
\<close>

record run_context =
  joined :: bool

definition join :: "run_context \<Rightarrow> run_context" where
  "join c = c\<lparr>joined := True\<rparr>"

record Simulator =
  addresses :: "string \<rightharpoonup> endpoint"
  components :: "component list"
  controller :: "Controller option"
  on_done :: "pyvalue option"
  runs :: nat

definition new_Simulator :: "(string \<rightharpoonup> endpoint) \<Rightarrow> Simulator" where
  "new_Simulator addrs =
     \<lparr>addresses = addrs, components = [], controller = None, on_done = None, runs = 0\<rparr>"

definition register_components :: "component list \<Rightarrow> Simulator \<Rightarrow> Simulator" where
  "register_components cs m = m\<lparr>components := components m @ cs\<rparr>"

definition register_controller :: "Controller \<Rightarrow> Simulator \<Rightarrow> Simulator" where
  "register_controller c m = m\<lparr>controller := Some c\<rparr>"

definition sim_simulate :: "Simulator \<Rightarrow> run_context \<times> Simulator" where
  "sim_simulate m = (\<lparr>joined = False\<rparr>, m\<lparr>runs := Suc (runs m)\<rparr>)"

section \<open>The class SimulatedTrading\<close>

text \<open>
  The attributes assigned at the top of \<open>__init__\<close>, before its first method call, form
  the base record; \<open>allocate_sockets\<close> and \<open>shutdown\<close> read and write only these, and are
  defined on every extension of it, so the constructor can call them on the object it is
  still building. The registries hold the components by reference; the client's and the
  algorithm's mutable state is in \<open>trading_client\<close> and \<open>algorithm\<close>.
\<close>

record line_base =
  algorithm :: Algorithm
  allocator :: AddressAllocator
  leased_sockets :: "endpoint list"
  trading_environment :: TradingEnvironment
  sim_context :: "run_context option"

record SimulatedTrading = line_base +
  con :: Controller
  sim :: Simulator
  clients :: "string \<rightharpoonup> component"
  trading_client :: TradeSimulationClient
  sources :: "string \<rightharpoonup> component"
  order_source :: component
  transaction_sim :: component
  transforms :: "string \<rightharpoonup> component"
  started :: bool

text \<open>
  \<open>allocate_sockets\<close> (lines 194-206): the two assertions (\<open>n\<close> is an \<open>int\<close> by its type
  here), the lease, and the extension of \<open>leased_sockets\<close>. \<open>shutdown\<close> (lines 214-215): one
  call of the allocator's \<open>reaquire\<close> with every element of \<open>leased_sockets\<close>; the method has
  no return statement, so it returns \<open>None\<close>, and it assigns nothing to \<open>self\<close>.
\<close>

definition allocate_sockets ::
  "int \<Rightarrow> 'a line_base_scheme \<Rightarrow> (error + endpoint list) \<times> 'a line_base_scheme" where
  "allocate_sockets n s =
     (if \<not> n > 0 then (Inl AssertionError, s)
      else case lease n (allocator s) of
             (Inl e, a) \<Rightarrow> (Inl e, s\<lparr>allocator := a\<rparr>)
           | (Inr got, a) \<Rightarrow>
               (Inr got, s\<lparr>allocator := a, leased_sockets := leased_sockets s @ got\<rparr>))"

definition shutdown :: "'a line_base_scheme \<Rightarrow> (error + pyvalue) \<times> 'a line_base_scheme" where
  "shutdown s =
     (case reaquire (leased_sockets s) (allocator s) of
        (Inl e, a) \<Rightarrow> (Inl e, s\<lparr>allocator := a\<rparr>)
      | (Inr u, a) \<Rightarrow> (Inr PyNone, s\<lparr>allocator := a\<rparr>))"

text \<open>
  \<open>__init__\<close> (lines 112-171). Indexing \<open>sockets[0]\<close> to \<open>sockets[7]\<close> raises \<open>IndexError\<close> when
  fewer than eight sockets came back; nothing is assigned between the lease and the last
  index, so one test stands for the eight. Line 167 evaluates the call \<open>self.shutdown()\<close>
  and stores its value in \<open>sim.on_done\<close>; \<open>started\<close>, the event callback and the algorithm's
  order entry point are set after it.
\<close>

definition init ::
  "Algorithm \<Rightarrow> TradingEnvironment \<Rightarrow> AddressAllocator \<Rightarrow> error + SimulatedTrading" where
  "init alg env alloc =
     (let self0 = \<lparr>algorithm = alg, allocator = alloc, leased_sockets = [],
                   trading_environment = env, sim_context = None\<rparr>
      in case allocate_sockets 8 self0 of
           (Inl e, self1) \<Rightarrow> Inl e
         | (Inr sockets, self1) \<Rightarrow>
             if length sockets < 8 then Inl IndexError
             else
               let addrs = Map.empty(''sync_address'' \<mapsto> sockets ! 0,
                                      ''data_address'' \<mapsto> sockets ! 1,
                                      ''feed_address'' \<mapsto> sockets ! 2,
                                      ''merge_address'' \<mapsto> sockets ! 3,
                                      ''result_address'' \<mapsto> sockets ! 4,
                                      ''order_address'' \<mapsto> sockets ! 5);
                   the_con = new_Controller (sockets ! 6) (sockets ! 7);
                   sim0 = new_Simulator addrs;
                   client = new_TradeSimulationClient (trading_environment self1);
                   the_clients = Map.empty(get_id (client_component client) \<mapsto>
                                   client_component client);
                   osrc = new_OrderDataSource;
                   the_sources = Map.empty(get_id osrc \<mapsto> osrc);
                   tsim = new_TransactionSimulator;
                   the_transforms = Map.empty(get_id tsim \<mapsto> tsim);
                   sim1 = register_components [client_component client, osrc, tsim] sim0;
                   sim2 = register_controller the_con sim1
               in (case shutdown self1 of
                    (Inl e, self2) \<Rightarrow> Inl e
                  | (Inr ret, self2) \<Rightarrow>
                      Inr \<lparr>algorithm =
                             set_order (PyMethod ''trading_client'' ''order'') (algorithm self2),
                           allocator = allocator self2,
                           leased_sockets = leased_sockets self2,
                           trading_environment = trading_environment self2,
                           sim_context = sim_context self2,
                           con = the_con,
                           sim = sim2\<lparr>on_done := Some ret\<rparr>,
                           clients = the_clients,
                           trading_client =
                             add_event_callback (PyMethod ''algorithm'' ''handle_frame'') client,
                           sources = the_sources,
                           order_source = osrc,
                           transaction_sim = tsim,
                           transforms = the_transforms,
                           started = False\<rparr>))"

text \<open>
  \<open>check_started\<close> (lines 186-189) evaluates \<open>ZiplineException(message)\<close> and raises what
  that gives. \<open>add_source\<close> and \<open>add_transform\<close> (lines 173-184): the \<open>isinstance\<close> assertion,
  \<open>check_started\<close>, the registration with the simulator, and the dictionary assignment;
  both methods assign into \<open>self.sources\<close>.
\<close>

definition check_started :: "SimulatedTrading \<Rightarrow> (error + unit) \<times> SimulatedTrading" where
  "check_started s =
     (if started s
      then (case new_ZiplineException
                   [''You cannot add sources after the simulation has begun.''] of
              Inl e \<Rightarrow> (Inl e, s)
            | Inr exc \<Rightarrow> (Inl exc, s))
      else (Inr (), s))"

definition add_source :: "component \<Rightarrow> SimulatedTrading \<Rightarrow> (error + pyvalue) \<times> SimulatedTrading" where
  "add_source source s =
     (if \<not> is_DataSource source then (Inl AssertionError, s)
      else case check_started s of
             (Inl e, s1) \<Rightarrow> (Inl e, s1)
           | (Inr u, s1) \<Rightarrow>
               let s2 = s1\<lparr>sim := register_components [source] (sim s1)\<rparr>
               in (Inr PyNone, s2\<lparr>sources := (sources s2)(get_id source \<mapsto> source)\<rparr>))"

definition add_transform :: "component \<Rightarrow> SimulatedTrading \<Rightarrow> (error + pyvalue) \<times> SimulatedTrading" where
  "add_transform transform s =
     (if \<not> is_BaseTransform transform then (Inl AssertionError, s)
      else case check_started s of
             (Inl e, s1) \<Rightarrow> (Inl e, s1)
           | (Inr u, s1) \<Rightarrow>
               let s2 = s1\<lparr>sim := register_components [transform] (sim s1)\<rparr>
               in (Inr PyNone, s2\<lparr>sources := (sources s2)(get_id transform \<mapsto> transform)\<rparr>))"

text \<open>
  \<open>get_cumulative_performance\<close> (lines 191-192) evaluates \<open>to_dict()\<close> as an expression
  statement. \<open>simulate\<close> (lines 208-212) sets \<open>started\<close>, stores the simulator's run context
  and joins it when \<open>blocking\<close>. \<open>get_positions\<close> (lines 221-228) returns the positions of
  the cumulative performance period.
\<close>

definition get_cumulative_performance ::
  "SimulatedTrading \<Rightarrow> (error + pyvalue) \<times> SimulatedTrading" where
  "get_cumulative_performance s =
     (let discarded = to_dict (cumulative_performance (perf (trading_client s)))
      in (Inr PyNone, s))"

definition simulate :: "bool \<Rightarrow> SimulatedTrading \<Rightarrow> (error + pyvalue) \<times> SimulatedTrading" where
  "simulate blocking s =
     (let s1 = s\<lparr>started := True\<rparr>;
          launched = sim_simulate (sim s1);
          s2 = s1\<lparr>sim := snd launched, sim_context := Some (fst launched)\<rparr>
      in if blocking then (Inr PyNone, s2\<lparr>sim_context := Some (join (fst launched))\<rparr>)
         else (Inr PyNone, s2))"

definition get_positions :: "SimulatedTrading \<Rightarrow> (error + pyvalue) \<times> SimulatedTrading" where
  "get_positions s =
     (let period = cumulative_performance (perf (trading_client s));
          found = period_get_positions period
      in (Inr found, s))"

section \<open>Repeated calls and concrete objects\<close>

text \<open>The six role names of the address dictionary, in the order of the source.\<close>

definition role_names :: "string list" where
  "role_names = [''sync_address'', ''data_address'', ''feed_address'', ''merge_address'',
                 ''result_address'', ''order_address'']"


definition demo_algorithm :: Algorithm where
  "demo_algorithm = \<lparr>order_attr = PyNone\<rparr>"

definition demo_environment :: TradingEnvironment where
  "demo_environment = \<lparr>capital_base = 100000\<rparr>"

text \<open>
  The finished objects \<open>SimulatedTrading(algorithm, environment, allocator)\<close> for an
  allocator of eight and of ten endpoints, and the first of them after a further
  \<open>allocate_sockets(8)\<close>.
\<close>

definition demo_line :: SimulatedTrading where
  "demo_line = projr (init demo_algorithm demo_environment (new_AddressAllocator 8))"

definition demo_line10 :: SimulatedTrading where
  "demo_line10 = projr (init demo_algorithm demo_environment (new_AddressAllocator 10))"


definition demo_started :: SimulatedTrading where
  "demo_started = snd (simulate False demo_line)"

definition feed_a :: component where
  "feed_a = \<lparr>py_id = 10, get_id = ''feed'', is_DataSource = True, is_BaseTransform = False\<rparr>"

definition feed_b :: component where
  "feed_b = \<lparr>py_id = 11, get_id = ''feed'', is_DataSource = True, is_BaseTransform = False\<rparr>"

definition vwap_a :: component where
  "vwap_a = \<lparr>py_id = 12, get_id = ''vwap'', is_DataSource = False, is_BaseTransform = True\<rparr>"

definition vwap_b :: component where
  "vwap_b = \<lparr>py_id = 13, get_id = ''vwap'', is_DataSource = False, is_BaseTransform = True\<rparr>"

section \<open>Facts about the allocator and the constructor\<close>

lemma upt8: "[0 ..< 8] = [0, 1, 2, 3, 4, 5, 6, 7::nat]"
  by (simp add: upt_rec)

lemma take8:
  "8 \<le> length xs \<Longrightarrow>
   take 8 xs = [xs ! 0, xs ! 1, xs ! 2, xs ! 3, xs ! 4, xs ! 5, xs ! 6, xs ! 7]"
  by (auto simp add: numeral_eq_Suc Suc_le_length_iff)

lemma lease_eight:
  "8 \<le> length (pool a) \<Longrightarrow>
   lease 8 a = (Inr (take 8 (pool a)),
                a\<lparr>pool := drop 8 (pool a), leased := leased a @ take 8 (pool a)\<rparr>)"
  by (simp add: lease_def)

lemma lease_eight_fails:
  "length (pool a) < 8 \<Longrightarrow> lease 8 a = (Inl ExhaustionError, a)"
  by (simp add: lease_def)

lemma init_short: "length (pool a) < 8 \<Longrightarrow> init alg env a = Inl ExhaustionError"
  by (simp add: init_def allocate_sockets_def lease_eight_fails)

lemma reaquire_raises: "reaquire conn a = (Inl e, b) \<Longrightarrow> e = NotLeasedError \<and> b = a"
  by (auto simp add: reaquire_def split: if_splits)

lemma reaquire_again:
  "reaquire conn a = (Inr u, b) \<Longrightarrow> conn \<noteq> [] \<Longrightarrow> reaquire conn b = (Inl NotLeasedError, b)"
  by (cases conn) (auto simp add: reaquire_def split: if_splits)


text \<open>The modelled allocator keeps its pool and its leases apart, and a lease followed by
  the reclaim of what it returned restores the pool's composition (spec 8).\<close>

lemma lease_keeps_ok: "allocator_ok a \<Longrightarrow> allocator_ok (snd (lease n a))"
proof -
  assume ok: "allocator_ok a"
  have split: "pool a = take (nat n) (pool a) @ drop (nat n) (pool a)"
    by simp
  from ok have d: "distinct (take (nat n) (pool a) @ drop (nat n) (pool a))"
    by (simp add: allocator_ok_def)
  have sub1: "set (take (nat n) (pool a)) \<subseteq> set (pool a)" by (rule set_take_subset)
  have sub2: "set (drop (nat n) (pool a)) \<subseteq> set (pool a)" by (rule set_drop_subset)
  from d have disj: "set (take (nat n) (pool a)) \<inter> set (drop (nat n) (pool a)) = {}"
    by (simp only: distinct_append)
  from ok d sub1 sub2 disj show ?thesis
    unfolding lease_def allocator_ok_def
    by (auto simp add: distinct_take distinct_drop)
qed

lemma reaquire_keeps_ok: "allocator_ok a \<Longrightarrow> allocator_ok (snd (reaquire conn a))"
  unfolding reaquire_def allocator_ok_def by auto

lemma lease_then_reaquire:
  "lease n a = (Inr got, b) \<Longrightarrow> allocator_ok a \<Longrightarrow>
     fst (reaquire got b) = Inr () \<and>
     set (pool (snd (reaquire got b))) = set (pool a) \<and>
     leased (snd (reaquire got b)) = leased a"
proof -
  assume l: "lease n a = (Inr got, b)" and ok: "allocator_ok a"
  from l have got: "got = take (nat n) (pool a)"
    and b: "b = a\<lparr>pool := drop (nat n) (pool a), leased := leased a @ take (nat n) (pool a)\<rparr>"
    by (auto simp add: lease_def split: if_splits)
  have sub: "set (take (nat n) (pool a)) \<subseteq> set (pool a)" by (rule set_take_subset)
  from ok sub have keep: "filter (\<lambda>e. e \<notin> set (take (nat n) (pool a))) (leased a) = leased a"
    by (auto simp add: allocator_ok_def filter_id_conv)
  have un: "set (drop (nat n) (pool a)) \<union> set (take (nat n) (pool a)) = set (pool a)"
    using set_append [of "take (nat n) (pool a)" "drop (nat n) (pool a)"] by auto
  show ?thesis
    unfolding got b reaquire_def using keep un by simp
qed

text \<open>What the constructor returns when the allocator can supply eight endpoints.\<close>

lemma init_built:
  assumes "8 \<le> length (pool a)"
  shows "init alg env a =
     Inr \<lparr>algorithm = set_order (PyMethod ''trading_client'' ''order'') alg,
          allocator = \<lparr>pool = drop 8 (pool a) @ remdups (take 8 (pool a)),
                       leased = filter (\<lambda>e. e \<notin> set (take 8 (pool a))) (leased a)\<rparr>,
          leased_sockets = take 8 (pool a),
          trading_environment = env,
          sim_context = None,
          con = new_Controller (pool a ! 6) (pool a ! 7),
          sim = \<lparr>addresses = Map.empty(''sync_address'' \<mapsto> pool a ! 0,
                                         ''data_address'' \<mapsto> pool a ! 1,
                                         ''feed_address'' \<mapsto> pool a ! 2,
                                         ''merge_address'' \<mapsto> pool a ! 3,
                                         ''result_address'' \<mapsto> pool a ! 4,
                                         ''order_address'' \<mapsto> pool a ! 5),
                 components = [client_component (new_TradeSimulationClient env),
                               new_OrderDataSource, new_TransactionSimulator],
                 controller = Some (new_Controller (pool a ! 6) (pool a ! 7)),
                 on_done = Some PyNone,
                 runs = 0\<rparr>,
          clients = Map.empty(''TRADING_CLIENT'' \<mapsto>
                      client_component (new_TradeSimulationClient env)),
          trading_client =
            add_event_callback (PyMethod ''algorithm'' ''handle_frame'')
              (new_TradeSimulationClient env),
          sources = Map.empty(''ORDER_SOURCE'' \<mapsto> new_OrderDataSource),
          order_source = new_OrderDataSource,
          transaction_sim = new_TransactionSimulator,
          transforms = Map.empty(''TRANSACTION_SIM'' \<mapsto> new_TransactionSimulator),
          started = False\<rparr>"
proof -
  have alloc: "allocate_sockets 8
          \<lparr>algorithm = alg, allocator = a, leased_sockets = [],
           trading_environment = env, sim_context = None\<rparr> =
        (Inr (take 8 (pool a)),
         \<lparr>algorithm = alg,
          allocator = a\<lparr>pool := drop 8 (pool a), leased := leased a @ take 8 (pool a)\<rparr>,
          leased_sockets = take 8 (pool a),
          trading_environment = env, sim_context = None\<rparr>)"
    using assms by (simp add: allocate_sockets_def lease_eight)
  have shut: "shutdown
         \<lparr>algorithm = alg,
          allocator = a\<lparr>pool := drop 8 (pool a), leased := leased a @ take 8 (pool a)\<rparr>,
          leased_sockets = take 8 (pool a),
          trading_environment = env, sim_context = None\<rparr> =
        (Inr PyNone,
         \<lparr>algorithm = alg,
          allocator = \<lparr>pool = drop 8 (pool a) @ remdups (take 8 (pool a)),
                       leased = filter (\<lambda>e. e \<notin> set (take 8 (pool a))) (leased a)\<rparr>,
          leased_sockets = take 8 (pool a),
          trading_environment = env, sim_context = None\<rparr>)"
    by (simp add: shutdown_def reaquire_def)
  have len: "\<not> length (take 8 (pool a)) < 8"
    using assms by simp
  show ?thesis
    unfolding init_def Let_def alloc prod.case sum.case shut
    using assms
    by (simp add: register_components_def register_controller_def new_Simulator_def
        new_TradeSimulationClient_def new_OrderDataSource_def new_TransactionSimulator_def)
qed

lemma init_succeeds_iff: "(\<exists>s. init alg env a = Inr s) = (8 \<le> length (pool a))"
proof
  assume "\<exists>s. init alg env a = Inr s"
  then show "8 \<le> length (pool a)"
    using init_short [of a alg env] by (cases "length (pool a) < 8") auto
next
  assume "8 \<le> length (pool a)"
  then show "\<exists>s. init alg env a = Inr s"
    by (simp add: init_built)
qed

lemma demo_init: "init demo_algorithm demo_environment (new_AddressAllocator 8) = Inr demo_line"
  by (simp add: demo_line_def init_built new_AddressAllocator_def)

lemma demo_line_eq:
  "demo_line =
     \<lparr>algorithm = \<lparr>order_attr = PyMethod ''trading_client'' ''order''\<rparr>,
      allocator = \<lparr>pool = [0, 1, 2, 3, 4, 5, 6, 7], leased = []\<rparr>,
      leased_sockets = [0, 1, 2, 3, 4, 5, 6, 7],
      trading_environment = demo_environment,
      sim_context = None,
      con = \<lparr>pub_socket = 6, route_socket = 7\<rparr>,
      sim = \<lparr>addresses = Map.empty(''sync_address'' \<mapsto> 0, ''data_address'' \<mapsto> 1,
                                     ''feed_address'' \<mapsto> 2, ''merge_address'' \<mapsto> 3,
                                     ''result_address'' \<mapsto> 4, ''order_address'' \<mapsto> 5),
             components = [client_component (new_TradeSimulationClient demo_environment),
                           new_OrderDataSource, new_TransactionSimulator],
             controller = Some \<lparr>pub_socket = 6, route_socket = 7\<rparr>,
             on_done = Some PyNone,
             runs = 0\<rparr>,
      clients = Map.empty(''TRADING_CLIENT'' \<mapsto>
                  client_component (new_TradeSimulationClient demo_environment)),
      trading_client =
        add_event_callback (PyMethod ''algorithm'' ''handle_frame'')
          (new_TradeSimulationClient demo_environment),
      sources = Map.empty(''ORDER_SOURCE'' \<mapsto> new_OrderDataSource),
      order_source = new_OrderDataSource,
      transaction_sim = new_TransactionSimulator,
      transforms = Map.empty(''TRANSACTION_SIM'' \<mapsto> new_TransactionSimulator),
      started = False\<rparr>"
  by (simp add: demo_line_def init_built new_AddressAllocator_def upt8 set_order_def
      demo_algorithm_def new_Controller_def)

lemma check_started_running: "started s \<Longrightarrow> check_started s = (Inl TypeError, s)"
  by (simp add: check_started_def new_ZiplineException_def ZiplineException_init_params_def)

lemma check_started_building: "\<not> started s \<Longrightarrow> check_started s = (Inr (), s)"
  by (simp add: check_started_def)

lemma demo_started_flag: "started demo_started"
  by (simp add: demo_started_def simulate_def Let_def)

section \<open>shutdown\<close>


lemma shutdown_again_raises:
  "leased_sockets s \<noteq> [] \<Longrightarrow> fst (shutdown (snd (shutdown s))) = Inl NotLeasedError"
proof -
  assume ne: "leased_sockets s \<noteq> []"
  obtain r b where rb: "reaquire (leased_sockets s) (allocator s) = (r, b)"
    by (cases "reaquire (leased_sockets s) (allocator s)")
  show ?thesis
  proof (cases r)
    case (Inl e)
    with rb reaquire_raises [of "leased_sockets s" "allocator s" e b] show ?thesis
      by (simp add: shutdown_def)
  next
    case (Inr u)
    with rb ne reaquire_again [of "leased_sockets s" "allocator s" u b] show ?thesis
      by (simp add: shutdown_def)
  qed
qed

lemma shutdown_keeps_leased_sockets: "leased_sockets (snd (shutdown s)) = leased_sockets s"
  by (simp add: shutdown_def split: prod.splits sum.splits)



lemma upt10: "[0 ..< 10] = [0, 1, 2, 3, 4, 5, 6, 7, 8, 9::nat]"
  by (simp add: upt_rec)

lemma demo_init10:
  "init demo_algorithm demo_environment (new_AddressAllocator 10) = Inr demo_line10"
  by (simp add: demo_line10_def init_built new_AddressAllocator_def)

lemma demo_line10_fields:
  "leased_sockets demo_line10 = [0, 1, 2, 3, 4, 5, 6, 7]"
  "allocator demo_line10 = \<lparr>pool = [8, 9, 0, 1, 2, 3, 4, 5, 6, 7], leased = []\<rparr>"
  "map (addresses (sim demo_line10)) role_names = [Some 0, Some 1, Some 2, Some 3, Some 4, Some 5]"
  "con demo_line10 = \<lparr>pub_socket = 6, route_socket = 7\<rparr>"
  by (simp_all add: demo_line10_def init_built new_AddressAllocator_def upt10 role_names_def
      new_Controller_def)






section \<open>The constructor\<close>

text \<open>
  C2 (the code departs from the claim). The claim: when construction returns, the eight
  endpoints are still leased and none has been reclaimed. The code: the constructor calls
  \<open>shutdown()\<close> itself (line 167), so on every successful construction all eight endpoints
  of \<open>leased_sockets\<close> are back in the allocator's pool and none of them is leased.
\<close>

theorem construction_reclaims_eagerly:
  "init alg env a = Inr s \<Longrightarrow>
     length (leased_sockets s) = 8 \<and>
     set (leased_sockets s) \<subseteq> set (pool (allocator s)) \<and>
     set (leased_sockets s) \<inter> set (leased (allocator s)) = {}"
proof -
  assume built: "init alg env a = Inr s"
  then have len: "8 \<le> length (pool a)"
    using init_succeeds_iff [of alg env a] by blast
  from built init_built [OF len, of alg env] show ?thesis
    using len by auto
qed

text \<open>
  The constructor on an allocator of eight endpoints.
\<close>

theorem construction_reclaims_eagerly_witness:
  "init demo_algorithm demo_environment (new_AddressAllocator 8) = Inr demo_line \<and>
   length (leased_sockets demo_line) = 8 \<and>
   set (leased_sockets demo_line) \<subseteq> set (pool (allocator demo_line)) \<and>
   set (leased_sockets demo_line) \<inter> set (leased (allocator demo_line)) = {} \<and>
   leased_sockets demo_line = [0, 1, 2, 3, 4, 5, 6, 7] \<and>
   pool (allocator demo_line) = [0, 1, 2, 3, 4, 5, 6, 7] \<and>
   leased (allocator demo_line) = []"
  using construction_reclaims_eagerly [OF demo_init] demo_init
  by (simp add: demo_line_eq)

text \<open>
  C7. When the allocator can supply eight endpoints, construction succeeds. Its sockets
  are the eight endpoints that one \<open>lease(8)\<close> of the allocator returns: pairwise distinct,
  taken from the pool and not leased before, and entered among the allocator's leases by
  that call. The six named roles are bound, in the order of the source, to the first six
  of them; the remaining two are the controller's pair, and that controller is the one
  registered with the simulator. The allocator of the finished object is the one after
  that lease and the reclaim of line 167 (C2).
\<close>

theorem construction_binds_roles:
  assumes "allocator_ok a" and "8 \<le> length (pool a)"
  shows "\<exists>s b. init alg env a = Inr s \<and>
           lease 8 a = (Inr (leased_sockets s), b) \<and>
           length (leased_sockets s) = 8 \<and>
           distinct (leased_sockets s) \<and>
           set (leased_sockets s) \<subseteq> set (pool a) \<and>
           set (leased_sockets s) \<inter> set (leased a) = {} \<and>
           pool b = drop 8 (pool a) \<and>
           leased b = leased a @ leased_sockets s \<and>
           allocator s = snd (reaquire (leased_sockets s) b) \<and>
           dom (addresses (sim s)) = set role_names \<and>
           map (addresses (sim s)) role_names = map Some (take 6 (leased_sockets s)) \<and>
           distinct (map (addresses (sim s)) role_names) \<and>
           [pub_socket (con s), route_socket (con s)] = drop 6 (leased_sockets s) \<and>
           controller (sim s) = Some (con s)"
proof -
  from assms(1) have dist: "distinct (take 8 (pool a))"
    by (simp add: allocator_ok_def)
  have t8: "take 8 (pool a) = [pool a ! 0, pool a ! 1, pool a ! 2, pool a ! 3, pool a ! 4,
                               pool a ! 5, pool a ! 6, pool a ! 7]"
    using assms(2) by (rule take8)
  have six: "distinct (map Some (take 6 (take 8 (pool a))))"
    using assms(1) by (simp add: allocator_ok_def distinct_map)
  have sub: "set (take 8 (pool a)) \<subseteq> set (pool a)" by (rule set_take_subset)
  from assms(1) sub have fresh: "set (take 8 (pool a)) \<inter> set (leased a) = {}"
    by (auto simp add: allocator_ok_def)
  define b where "b = a\<lparr>pool := drop 8 (pool a), leased := leased a @ take 8 (pool a)\<rparr>"
  have l: "lease 8 a = (Inr (take 8 (pool a)), b)"
    unfolding b_def using assms(2) by (rule lease_eight)
  have r: "snd (reaquire (take 8 (pool a)) b) =
      \<lparr>pool = drop 8 (pool a) @ remdups (take 8 (pool a)),
       leased = filter (\<lambda>e. e \<notin> set (take 8 (pool a))) (leased a)\<rparr>"
    unfolding b_def by (simp add: reaquire_def)
  have roles: "dom (addresses (sim s)) = set role_names \<and>
           map (addresses (sim s)) role_names = map Some (take 6 (leased_sockets s)) \<and>
           distinct (map (addresses (sim s)) role_names) \<and>
           [pub_socket (con s), route_socket (con s)] = drop 6 (leased_sockets s) \<and>
           controller (sim s) = Some (con s)"
    if "init alg env a = Inr s" for s
  proof -
    from that init_built [OF assms(2), of alg env]
    have ad: "addresses (sim s) = Map.empty(''sync_address'' \<mapsto> pool a ! 0,
                                         ''data_address'' \<mapsto> pool a ! 1,
                                         ''feed_address'' \<mapsto> pool a ! 2,
                                         ''merge_address'' \<mapsto> pool a ! 3,
                                         ''result_address'' \<mapsto> pool a ! 4,
                                         ''order_address'' \<mapsto> pool a ! 5)"
      and ls: "leased_sockets s = take 8 (pool a)"
      and cn: "con s = new_Controller (pool a ! 6) (pool a ! 7)"
      and ct: "controller (sim s) = Some (new_Controller (pool a ! 6) (pool a ! 7))"
      by auto
    have d: "dom (addresses (sim s)) = set role_names"
      unfolding ad by (simp add: role_names_def insert_commute)
    have m: "map (addresses (sim s)) role_names = map Some (take 6 (leased_sockets s))"
      unfolding ad ls t8 by (simp add: role_names_def)
    have dm: "distinct (map (addresses (sim s)) role_names)"
      unfolding m ls using six .
    have c: "[pub_socket (con s), route_socket (con s)] = drop 6 (leased_sockets s)"
      unfolding cn ls t8 by (simp add: new_Controller_def)
    from d m dm c cn ct show ?thesis by simp
  qed
  obtain s where s: "init alg env a = Inr s"
    using init_succeeds_iff [of alg env a] assms(2) by blast
  from s init_built [OF assms(2), of alg env]
  have ls: "leased_sockets s = take 8 (pool a)"
    and al: "allocator s = \<lparr>pool = drop 8 (pool a) @ remdups (take 8 (pool a)),
       leased = filter (\<lambda>e. e \<notin> set (take 8 (pool a))) (leased a)\<rparr>"
    by auto
  have "init alg env a = Inr s \<and>
           lease 8 a = (Inr (leased_sockets s), b) \<and>
           length (leased_sockets s) = 8 \<and>
           distinct (leased_sockets s) \<and>
           set (leased_sockets s) \<subseteq> set (pool a) \<and>
           set (leased_sockets s) \<inter> set (leased a) = {} \<and>
           pool b = drop 8 (pool a) \<and>
           leased b = leased a @ leased_sockets s \<and>
           allocator s = snd (reaquire (leased_sockets s) b)"
    using s l r dist sub fresh assms(2) unfolding ls al by (simp add: b_def)
  with roles [OF s] show ?thesis by blast
qed

text \<open>
  Witness for C7: an allocator of ten endpoints.
\<close>

theorem construction_binds_roles_witness:
  "allocator_ok (new_AddressAllocator 10) \<and> 8 \<le> length (pool (new_AddressAllocator 10)) \<and>
   init demo_algorithm demo_environment (new_AddressAllocator 10) = Inr demo_line10 \<and>
   leased_sockets demo_line10 = [0, 1, 2, 3, 4, 5, 6, 7] \<and>
   allocator demo_line10 = \<lparr>pool = [8, 9, 0, 1, 2, 3, 4, 5, 6, 7], leased = []\<rparr> \<and>
   map (addresses (sim demo_line10)) role_names
     = [Some 0, Some 1, Some 2, Some 3, Some 4, Some 5] \<and>
   con demo_line10 = \<lparr>pub_socket = 6, route_socket = 7\<rparr> \<and>
   (\<exists>s b. init demo_algorithm demo_environment (new_AddressAllocator 10) = Inr s \<and>
           lease 8 (new_AddressAllocator 10) = (Inr (leased_sockets s), b) \<and>
           length (leased_sockets s) = 8 \<and>
           distinct (leased_sockets s) \<and>
           set (leased_sockets s) \<subseteq> set (pool (new_AddressAllocator 10)) \<and>
           set (leased_sockets s) \<inter> set (leased (new_AddressAllocator 10)) = {} \<and>
           pool b = drop 8 (pool (new_AddressAllocator 10)) \<and>
           leased b = leased (new_AddressAllocator 10) @ leased_sockets s \<and>
           allocator s = snd (reaquire (leased_sockets s) b) \<and>
           dom (addresses (sim s)) = set role_names \<and>
           map (addresses (sim s)) role_names = map Some (take 6 (leased_sockets s)) \<and>
           distinct (map (addresses (sim s)) role_names) \<and>
           [pub_socket (con s), route_socket (con s)] = drop 6 (leased_sockets s) \<and>
           controller (sim s) = Some (con s))"
proof -
  have h1: "allocator_ok (new_AddressAllocator 10)"
    by (simp add: allocator_ok_def new_AddressAllocator_def)
  have h2: "8 \<le> length (pool (new_AddressAllocator 10))"
    by (simp add: new_AddressAllocator_def)
  have c: "leased_sockets demo_line10 = [0, 1, 2, 3, 4, 5, 6, 7] \<and>
   allocator demo_line10 = \<lparr>pool = [8, 9, 0, 1, 2, 3, 4, 5, 6, 7], leased = []\<rparr> \<and>
   map (addresses (sim demo_line10)) role_names
     = [Some 0, Some 1, Some 2, Some 3, Some 4, Some 5] \<and>
   con demo_line10 = \<lparr>pub_socket = 6, route_socket = 7\<rparr>"
    by (simp add: demo_line10_fields)
  show ?thesis
    using construction_binds_roles [OF h1 h2, of demo_algorithm demo_environment]
      h1 h2 c demo_init10
    by blast
qed

text \<open>
  C9. After every successful construction \<open>sim.on_done\<close> holds \<open>None\<close>, the value that
  the immediate call \<open>self.shutdown()\<close> returned, and not the bound method.
\<close>

theorem on_done_is_None_after_construction:
  "init alg env a = Inr s \<Longrightarrow>
     on_done (sim s) = Some PyNone \<and> on_done (sim s) \<noteq> Some (PyMethod ''self'' ''shutdown'')"
proof -
  assume built: "init alg env a = Inr s"
  then have len: "8 \<le> length (pool a)"
    using init_succeeds_iff [of alg env a] by blast
  from built init_built [OF len, of alg env] show ?thesis
    by auto
qed

text \<open>
  Witness for C9.
\<close>

theorem on_done_is_None_after_construction_witness:
  "init demo_algorithm demo_environment (new_AddressAllocator 8) = Inr demo_line \<and>
   on_done (sim demo_line) = Some PyNone \<and>
   on_done (sim demo_line) \<noteq> Some (PyMethod ''self'' ''shutdown'')"
  using on_done_is_None_after_construction [OF demo_init] demo_init by simp

section \<open>Registration\<close>

text \<open>
  C3 (the code departs from the claim). The claim: after \<open>simulate\<close>, \<open>add_source\<close> and
  \<open>add_transform\<close> fail with the already-started error and leave the registry as it was.
  The code: the call fails and the whole object is unchanged, but the exception raised is
  \<open>TypeError\<close>: \<open>check_started\<close> cannot construct the \<open>ZiplineException\<close> it means to raise.
\<close>

theorem add_after_simulate_raises_TypeError:
  "started s \<Longrightarrow> is_DataSource c \<Longrightarrow> is_BaseTransform t \<Longrightarrow>
     add_source c s = (Inl TypeError, s) \<and> add_transform t s = (Inl TypeError, s)"
  by (simp add: add_source_def add_transform_def check_started_running)

text \<open>
  A started object, a data source and a transform.
\<close>

theorem add_after_simulate_raises_TypeError_witness:
  "started demo_started \<and> is_DataSource feed_a \<and> is_BaseTransform vwap_a \<and>
   add_source feed_a demo_started = (Inl TypeError, demo_started) \<and>
   add_transform vwap_a demo_started = (Inl TypeError, demo_started)"
proof -
  have h1: "started demo_started" by (rule demo_started_flag)
  have h2: "is_DataSource feed_a" by (simp add: feed_a_def)
  have h3: "is_BaseTransform vwap_a" by (simp add: vwap_a_def)
  show ?thesis
    using add_after_simulate_raises_TypeError [OF h1 h2 h3] h1 h2 h3 by simp
qed

text \<open>
  C4 (as amended). Before \<open>simulate\<close>, registering a second component whose identity
  equals that of a component already registered does not fail: neither \<open>add_source\<close> nor
  \<open>add_transform\<close> checks for a duplicate, and after the second \<open>add_source\<close> the sources
  mapping holds the second component under that identity.
\<close>

theorem duplicate_identity_overwrites:
  "\<not> started s \<Longrightarrow> is_DataSource c1 \<Longrightarrow> is_DataSource c2 \<Longrightarrow> get_id c2 = get_id c1 \<Longrightarrow>
   is_BaseTransform t1 \<Longrightarrow> is_BaseTransform t2 \<Longrightarrow> get_id t2 = get_id t1 \<Longrightarrow>
     fst (add_source c2 (snd (add_source c1 s))) = Inr PyNone \<and>
     sources (snd (add_source c2 (snd (add_source c1 s)))) (get_id c1) = Some c2 \<and>
     fst (add_transform t2 (snd (add_transform t1 s))) = Inr PyNone"
  by (simp add: add_source_def add_transform_def check_started_def Let_def)

text \<open>
  Witness for C4.
\<close>

theorem duplicate_identity_overwrites_witness:
  "\<not> started demo_line \<and> is_DataSource feed_a \<and> is_DataSource feed_b \<and>
   get_id feed_b = get_id feed_a \<and> is_BaseTransform vwap_a \<and> is_BaseTransform vwap_b \<and>
   get_id vwap_b = get_id vwap_a \<and>
   fst (add_source feed_b (snd (add_source feed_a demo_line))) = Inr PyNone \<and>
   sources (snd (add_source feed_b (snd (add_source feed_a demo_line)))) (get_id feed_a)
     = Some feed_b \<and>
   fst (add_transform vwap_b (snd (add_transform vwap_a demo_line))) = Inr PyNone"
proof -
  have h1: "\<not> started demo_line" by (simp add: demo_line_eq)
  have h2: "is_DataSource feed_a" by (simp add: feed_a_def)
  have h3: "is_DataSource feed_b" by (simp add: feed_b_def)
  have h4: "get_id feed_b = get_id feed_a" by (simp add: feed_a_def feed_b_def)
  have h5: "is_BaseTransform vwap_a" by (simp add: vwap_a_def)
  have h6: "is_BaseTransform vwap_b" by (simp add: vwap_b_def)
  have h7: "get_id vwap_b = get_id vwap_a" by (simp add: vwap_a_def vwap_b_def)
  show ?thesis
    using duplicate_identity_overwrites [OF h1 h2 h3 h4 h5 h6 h7] h1 h2 h3 h4 h5 h6 h7
    by simp
qed

text \<open>
  Counterexample to C4 as stated: two distinct sources with the identity \<open>feed\<close>; the second
  registration returns and replaces the first.
\<close>

theorem duplicate_identity_accepted_counterexample:
  "feed_b \<noteq> feed_a \<and> get_id feed_b = get_id feed_a \<and>
   fst (add_source feed_a demo_line) = Inr PyNone \<and>
   fst (add_source feed_b (snd (add_source feed_a demo_line))) = Inr PyNone \<and>
   sources (snd (add_source feed_b (snd (add_source feed_a demo_line)))) ''feed'' = Some feed_b"
  by (simp add: add_source_def check_started_def demo_line_eq feed_a_def feed_b_def Let_def)

text \<open>
  C5 (the code departs from the claim). The claim: a successful \<open>add_transform(t)\<close>
  records \<open>t\<close> in the transforms mapping and leaves the sources mapping unchanged. The code
  (line 184) writes \<open>t\<close> into the sources mapping and leaves the transforms mapping
  unchanged.
\<close>

theorem add_transform_writes_sources:
  "\<not> started s \<Longrightarrow> is_BaseTransform t \<Longrightarrow>
     fst (add_transform t s) = Inr PyNone \<and>
     transforms (snd (add_transform t s)) = transforms s \<and>
     sources (snd (add_transform t s)) = (sources s)(get_id t \<mapsto> t)"
  by (simp add: add_transform_def check_started_def Let_def)

text \<open>
  A transform added to the finished object.
\<close>

theorem add_transform_writes_sources_witness:
  "\<not> started demo_line \<and> is_BaseTransform vwap_a \<and>
   fst (add_transform vwap_a demo_line) = Inr PyNone \<and>
   transforms (snd (add_transform vwap_a demo_line)) = transforms demo_line \<and>
   sources (snd (add_transform vwap_a demo_line)) = (sources demo_line)(get_id vwap_a \<mapsto> vwap_a) \<and>
   transforms (snd (add_transform vwap_a demo_line)) ''vwap'' = None \<and>
   sources (snd (add_transform vwap_a demo_line)) ''vwap'' = Some vwap_a"
proof -
  have h1: "\<not> started demo_line" by (simp add: demo_line_eq)
  have h2: "is_BaseTransform vwap_a" by (simp add: vwap_a_def)
  have id: "get_id vwap_a = ''vwap''" by (simp add: vwap_a_def)
  have none: "transforms demo_line ''vwap'' = None" by (simp add: demo_line_eq)
  show ?thesis
    using add_transform_writes_sources [OF h1 h2] h1 h2 id none by simp
qed

section \<open>simulate\<close>

text \<open>
  C6 (as amended). \<open>simulate\<close> never checks \<open>started\<close>. Every call, the first and any later
  one, returns normally, leaves \<open>started\<close> true, starts the simulator once more and stores
  the new run context; the registry is not touched.
\<close>

theorem simulate_never_refuses:
  "fst (simulate blocking s) = Inr PyNone \<and>
   started (snd (simulate blocking s)) \<and>
   runs (sim (snd (simulate blocking s))) = Suc (runs (sim s)) \<and>
   sim_context (snd (simulate blocking s)) \<noteq> None \<and>
   sources (snd (simulate blocking s)) = sources s \<and>
   transforms (snd (simulate blocking s)) = transforms s \<and>
   clients (snd (simulate blocking s)) = clients s"
  by (simp add: simulate_def sim_simulate_def Let_def)

text \<open>
  Counterexample to C6 as stated: a second call of \<open>simulate\<close> on a started object returns
  normally, and the simulator has then been started twice.
\<close>

theorem simulate_again_returns_counterexample:
  "started (snd (simulate False demo_line)) \<and>
   fst (simulate False (snd (simulate False demo_line))) = Inr PyNone \<and>
   runs (sim (snd (simulate False (snd (simulate False demo_line))))) = 2"
  by (simp add: simulate_def sim_simulate_def Let_def demo_line_eq)

section \<open>The accessors\<close>

text \<open>
  C8 (as amended). Neither accessor checks \<open>started\<close>. Before \<open>simulate\<close>,
  \<open>get_positions\<close> returns the positions of the client's cumulative performance period and
  \<open>get_cumulative_performance\<close> returns \<open>None\<close>; neither raises, and the object is unchanged.
\<close>

theorem accessors_ignore_started:
  "\<not> started s \<Longrightarrow>
     get_positions s =
       (Inr (PyDict (positions (cumulative_performance (perf (trading_client s))))), s) \<and>
     fst (get_cumulative_performance s) = Inr PyNone \<and>
     snd (get_cumulative_performance s) = s"
  by (simp add: get_positions_def get_cumulative_performance_def period_get_positions_def Let_def)

text \<open>
  Witness for C8: the finished object, not yet started.
\<close>

theorem accessors_ignore_started_witness:
  "\<not> started demo_line \<and>
   get_positions demo_line = (Inr (PyDict []), demo_line) \<and>
   fst (get_cumulative_performance demo_line) = Inr PyNone \<and>
   snd (get_cumulative_performance demo_line) = demo_line"
proof -
  have h: "\<not> started demo_line" by (simp add: demo_line_eq)
  have p: "positions (cumulative_performance (perf (trading_client demo_line))) = []"
    by (simp add: demo_line_eq add_event_callback_def new_TradeSimulationClient_def)
  show ?thesis
    using accessors_ignore_started [OF h] h p by simp
qed

text \<open>
  Counterexample to C8 as stated: on the finished object, before \<open>simulate\<close>, both
  accessors return.
\<close>

theorem accessors_before_simulate_counterexample:
  "started demo_line = False \<and>
   fst (get_positions demo_line) = Inr (PyDict []) \<and>
   fst (get_cumulative_performance demo_line) = Inr PyNone"
  by (simp add: demo_line_eq get_positions_def get_cumulative_performance_def
      period_get_positions_def add_event_callback_def new_TradeSimulationClient_def Let_def)

text \<open>
  C10. In every state \<open>get_cumulative_performance\<close> returns \<open>None\<close> and leaves the object as
  it was: the dictionary that \<open>to_dict()\<close> computes is not what the caller receives.
\<close>

theorem get_cumulative_performance_returns_None:
  "get_cumulative_performance s = (Inr PyNone, s) \<and>
   fst (get_cumulative_performance s) \<noteq>
     Inr (to_dict (cumulative_performance (perf (trading_client s))))"
  by (simp add: get_cumulative_performance_def to_dict_def)

end
